theory Spec2Isabelle
  imports Main "HOL-Library.AList"
begin

section \<open>JavaScript values used by the build configuration\<close>

text \<open>
  The manifest (\<^verbatim>\<open>package.json\<close>) and the export map are plain JavaScript objects
  holding JSON data. An object is modelled as an association list in the order of its
  own property keys, which \<^verbatim>\<open>JSON.stringify\<close> and the spread syntax follow. The
  payload of a number is never inspected by the configuration, so it is a type
  parameter.
\<close>

datatype 'n json =
    JNull
  | JBool bool
  | JNum 'n
  | JStr string
  | JArr "'n json list"
  | JObj "(string \<times> 'n json) list"

type_synonym 'n obj = "(string \<times> 'n json) list"

text \<open>
  \<^verbatim>\<open>Object.assign(target, src)\<close>: every own property of \<^verbatim>\<open>src\<close>, in order, is
  stored into \<^verbatim>\<open>target\<close>. Storing an existing key keeps its position and replaces
  its value; storing a new key appends it.
\<close>

definition Object_assign :: "('k \<times> 'v) list \<Rightarrow> ('k \<times> 'v) list \<Rightarrow> ('k \<times> 'v) list" where
  "Object_assign target src = fold (\<lambda>(k, v). AList.update k v) src target"

text \<open>The object literals \<^verbatim>\<open>{ ...a }\<close> and \<^verbatim>\<open>{ ...a, ...b }\<close>.\<close>

definition spread :: "('k \<times> 'v) list \<Rightarrow> ('k \<times> 'v) list" where
  "spread a = Object_assign [] a"

definition spread2 :: "('k \<times> 'v) list \<Rightarrow> ('k \<times> 'v) list \<Rightarrow> ('k \<times> 'v) list" where
  "spread2 a b = Object_assign (Object_assign [] a) b"

section \<open>Configuration constants (rollup.config.mjs, lines 13-27)\<close>

definition usePreferConst :: bool where "usePreferConst = True"
definition useStrict :: bool where "useStrict = True"
definition useThrowOnError :: bool where "useThrowOnError = True"
definition useSourceMap :: bool where "useSourceMap = False"
definition useEsbuild :: bool where "useEsbuild = True"
definition modules :: "string list" where "modules = []"
definition external :: "string list" where "external = []"

definition defaultExports :: "'n obj" where
  "defaultExports =
     [(''.'', JObj
        [(''import'', JStr ''./dist/esm/index.mjs''),
         (''require'', JStr ''./dist/cjs/index.cjs''),
         (''types'', JStr ''./dist/index.d.ts''),
         (''default'', JStr ''./dist/esm/index.mjs'')])]"

section \<open>Build targets\<close>

datatype plugin =
    Externals
  | Json bool
  | TypescriptPaths bool
  | Dts
  | Esbuild
  | Typescript bool bool
  | UpdatePackageJsonExports

record output_options =
  out_file :: string
  format :: string
  constBindings :: "bool option"
  strict :: "bool option"
  entryFileNames :: "string option"
  sourcemap :: "bool option"

text \<open>
  An entry of the \<^verbatim>\<open>plugins\<close> array is a plugin or \<^verbatim>\<open>undefined\<close> (\<open>None\<close>), which
  the conditional expressions of the source produce when \<^verbatim>\<open>useEsbuild\<close> is off.
\<close>

record build_target =
  tgt_input :: string
  tgt_output :: output_options
  external_ids :: "string list"
  plugins :: "plugin option list"

definition createTsDefinitionConfigForModule :: "string \<Rightarrow> build_target" where
  "createTsDefinitionConfigForModule moduleName =
     \<lparr> tgt_input = ''src/modules/'' @ moduleName @ ''/index.ts'',
       tgt_output = \<lparr> out_file = moduleName @ ''/index.d.ts'', format = ''es'',
                  constBindings = None, strict = None,
                  entryFileNames = None, sourcemap = None \<rparr>,
       external_ids = external,
       plugins = [Some Externals, Some (Json usePreferConst),
                  Some (TypescriptPaths True), Some Dts] \<rparr>"

definition createExportTemplate :: "string \<Rightarrow> 'n obj" where
  "createExportTemplate moduleName =
     [(''./'' @ moduleName, JObj
        [(''import'', JStr (''./'' @ moduleName @ ''/index.mjs'')),
         (''require'', JStr (''./'' @ moduleName @ ''/index.cjs'')),
         (''types'', JStr (''./'' @ moduleName @ ''/index.d.ts'')),
         (''default'', JStr (''./'' @ moduleName @ ''/index.mjs''))])]"

text \<open>The plugin list shared by every code-emitting target.\<close>

definition code_plugins :: "plugin option list" where
  "code_plugins =
     [Some Externals, Some (Json usePreferConst),
      (if useEsbuild then Some (TypescriptPaths True) else None),
      (if useEsbuild then Some Esbuild else Some (Typescript useThrowOnError True))]"

definition createCjsConfigForModules :: "string list \<Rightarrow> build_target list" where
  "createCjsConfigForModules moduleNames =
     map (\<lambda>moduleName.
       \<lparr> tgt_input = ''src/modules/'' @ moduleName @ ''/index.ts'',
         tgt_output = \<lparr> out_file = moduleName @ ''/index.cjs'', format = ''cjs'',
                    constBindings = Some usePreferConst, strict = Some useStrict,
                    entryFileNames = Some ''[name].cjs'', sourcemap = Some useSourceMap \<rparr>,
         external_ids = external,
         plugins = code_plugins \<rparr>) moduleNames"

definition createEsmConfigForModules :: "string list \<Rightarrow> build_target list" where
  "createEsmConfigForModules moduleNames =
     map (\<lambda>moduleName.
       \<lparr> tgt_input = ''src/modules/'' @ moduleName @ ''/index.ts'',
         tgt_output = \<lparr> out_file = moduleName @ ''/index.mjs'', format = ''es'',
                    constBindings = Some usePreferConst, strict = Some useStrict,
                    entryFileNames = Some ''[name].mjs'', sourcemap = Some useSourceMap \<rparr>,
         external_ids = external,
         plugins = code_plugins \<rparr>) moduleNames"

text \<open>
  The default export is one array literal: three root targets (lines 169-252), then the
  three spreads over the module list (lines 253-255). The two parts are named after the
  operations of the specification.
\<close>

definition generateRootTargets :: "build_target list" where
  "generateRootTargets =
     [\<lparr> tgt_input = ''src/index.ts'',
        tgt_output = \<lparr> out_file = ''dist/index.d.ts'', format = ''es'',
                   constBindings = None, strict = None,
                   entryFileNames = None, sourcemap = None \<rparr>,
        external_ids = external,
        plugins = [Some Externals, Some (Json usePreferConst),
                   Some (TypescriptPaths True), Some Dts,
                   Some UpdatePackageJsonExports] \<rparr>,
      \<lparr> tgt_input = ''src/index.ts'',
        tgt_output = \<lparr> out_file = ''dist/esm/index.mjs'', format = ''es'',
                   constBindings = Some usePreferConst, strict = Some useStrict,
                   entryFileNames = Some ''[name].mjs'', sourcemap = Some useSourceMap \<rparr>,
        external_ids = external,
        plugins = code_plugins \<rparr>,
      \<lparr> tgt_input = ''src/index.ts'',
        tgt_output = \<lparr> out_file = ''dist/cjs/index.cjs'', format = ''cjs'',
                   constBindings = Some usePreferConst, strict = Some useStrict,
                   entryFileNames = Some ''[name].cjs'', sourcemap = Some useSourceMap \<rparr>,
        external_ids = external,
        plugins = code_plugins \<rparr>]"

definition generateModuleTargets :: "string list \<Rightarrow> build_target list" where
  "generateModuleTargets ms =
     map createTsDefinitionConfigForModule ms
     @ createCjsConfigForModules ms
     @ createEsmConfigForModules ms"

definition export_default :: "string list \<Rightarrow> build_target list" where
  "export_default ms = generateRootTargets @ generateModuleTargets ms"

section \<open>The export map and the manifest update (lines 143-150)\<close>

text \<open>
  \<open>loop_body\<close> is the statement inside the \<^verbatim>\<open>for\<close> loop (line 148),
  \<open>buildExportMap\<close> the value of \<^verbatim>\<open>updatedExports\<close> after the loop (lines 144-149)
  and \<open>updateManifest\<close> the value of \<^verbatim>\<open>packageJsonDuplicate\<close> that is serialised (lines
  143-150). The module list is a parameter; the source binds it to \<open>modules\<close>.
\<close>

definition loop_body :: "'n obj \<Rightarrow> string \<Rightarrow> 'n obj" where
  "loop_body updatedExports moduleName =
     Object_assign updatedExports
       (spread2 updatedExports (createExportTemplate moduleName))"

definition buildExportMap :: "string list \<Rightarrow> 'n obj" where
  "buildExportMap ms = foldl loop_body (spread defaultExports) ms"

definition updateManifest :: "string list \<Rightarrow> 'n obj \<Rightarrow> 'n obj" where
  "updateManifest ms packageJson =
     (let packageJsonDuplicate = spread packageJson;
          updatedExports = buildExportMap ms
      in AList.update ''exports'' (JObj updatedExports) packageJsonDuplicate)"

text \<open>
  The entries of a manifest's \<open>exports\<close> field, and whether every entry of one export
  map is still in another.
\<close>

definition exports_of :: "'n obj \<Rightarrow> 'n obj" where
  "exports_of manifest =
     (case map_of manifest ''exports'' of Some (JObj e) \<Rightarrow> e | _ \<Rightarrow> [])"

definition entries_kept :: "'n obj \<Rightarrow> 'n obj \<Rightarrow> bool" where
  "entries_kept old new = list_all (\<lambda>(k, v). map_of new k = Some v) old"

section \<open>Writing the manifest (lines 141-164)\<close>

record prettier_options =
  semi :: bool
  trailingComma :: string
  parser :: string
  singleQuote :: bool
  printWidth :: nat
  useTabs :: bool
  tabWidth :: nat
  arrowParens :: string

definition format_options :: prettier_options where
  "format_options =
     \<lparr> semi = True, trailingComma = ''none'', parser = ''json'', singleQuote = True,
       printWidth = 180, useTabs = True, tabWidth = 4, arrowParens = ''always'' \<rparr>"

text \<open>A thrown exception or a rejected promise, with its message.\<close>

datatype error = Rejected string

text \<open>
  What the configuration calls but does not define: the console, the file system, the
  JSON serialiser, the formatter, and the bundler's own work on one target (bundling it
  and writing its output file, third-party plugins included). The world \<open>'w\<close> they
  act on is left open. A call that can fail returns \<open>Inr\<close> with the new world, or
  \<open>Inl\<close> with the error and the world the failed attempt leaves behind. The
  serialiser and the formatter are given JSON data and return its text.
\<close>

record ('w, 'n) host =
  console_log :: "string \<Rightarrow> 'w \<Rightarrow> 'w"
  fs_writeFile :: "string \<Rightarrow> string \<Rightarrow> 'w \<Rightarrow> error \<times> 'w + 'w"
  JSON_stringify :: "'n json \<Rightarrow> string"
  prettier_format :: "string \<Rightarrow> prettier_options \<Rightarrow> string"
  write_output :: "build_target \<Rightarrow> 'w \<Rightarrow> error \<times> 'w + 'w"

definition manifest_text :: "('w, 'n) host \<Rightarrow> string list \<Rightarrow> 'n obj \<Rightarrow> string" where
  "manifest_text h ms packageJson =
     prettier_format h (JSON_stringify h (JObj (updateManifest ms packageJson))) format_options"

text \<open>
  The hook is an \<^verbatim>\<open>async\<close> function with no \<^verbatim>\<open>try\<close>: when the awaited write
  rejects, the hook rejects with the same error and does nothing more; otherwise it
  returns.
\<close>

definition writeBundle ::
  "('w, 'n) host \<Rightarrow> string list \<Rightarrow> 'n obj \<Rightarrow> 'w \<Rightarrow> error \<times> 'w + 'w" where
  "writeBundle h ms packageJson w =
     (let w1 = console_log h ''updating package.json for exports'' w
      in case fs_writeFile h ''./package.json'' (manifest_text h ms packageJson) w1 of
           Inl (e, w2) \<Rightarrow> Inl (e, w2)
         | Inr w2 \<Rightarrow> Inr w2)"

section \<open>Running the exported configuration\<close>

text \<open>
  The bundler is not part of the repository. Its contract for an exported array of
  configurations is: the configurations are built one after another in array order; for
  each one the output file is written and then the \<^verbatim>\<open>writeBundle\<close> hooks of that
  configuration's plugins are called; the first failure aborts the run. The only
  \<^verbatim>\<open>writeBundle\<close> hook defined in the repository is that of
  \<^verbatim>\<open>updatePackageJsonExports\<close>.
\<close>

datatype step = WriteOutput build_target | UpdateManifest

definition target_steps :: "build_target \<Rightarrow> step list" where
  "target_steps t =
     WriteOutput t
     # map (\<lambda>p. UpdateManifest)
         (filter (\<lambda>p. p = Some UpdatePackageJsonExports) (plugins t))"

definition build_steps :: "build_target list \<Rightarrow> step list" where
  "build_steps ts = concat (map target_steps ts)"

fun exec_step ::
  "('w, 'n) host \<Rightarrow> string list \<Rightarrow> 'n obj \<Rightarrow> step \<Rightarrow> 'w \<Rightarrow> error \<times> 'w + 'w" where
  "exec_step h ms packageJson (WriteOutput t) w = write_output h t w"
| "exec_step h ms packageJson UpdateManifest w = writeBundle h ms packageJson w"

fun run_steps ::
  "('w, 'n) host \<Rightarrow> string list \<Rightarrow> 'n obj \<Rightarrow> step list \<Rightarrow> 'w \<Rightarrow> error \<times> 'w + 'w" where
  "run_steps h ms packageJson [] w = Inr w"
| "run_steps h ms packageJson (s # ss) w =
     (case exec_step h ms packageJson s w of
        Inl (e, w') \<Rightarrow> Inl (e, w')
      | Inr w' \<Rightarrow> run_steps h ms packageJson ss w')"

definition run_build ::
  "('w, 'n) host \<Rightarrow> string list \<Rightarrow> 'n obj \<Rightarrow> 'w \<Rightarrow> error \<times> 'w + 'w" where
  "run_build h ms packageJson w =
     run_steps h ms packageJson (build_steps (export_default ms)) w"

fun is_manifest_write :: "step \<Rightarrow> bool" where
  "is_manifest_write UpdateManifest = True"
| "is_manifest_write (WriteOutput t) = False"

definition manifest_writes :: "step list \<Rightarrow> nat" where
  "manifest_writes steps = length (filter is_manifest_write steps)"

fun step_output :: "step \<Rightarrow> string list" where
  "step_output (WriteOutput t) = [out_file (tgt_output t)]"
| "step_output UpdateManifest = []"

text \<open>The output files still to be written when the manifest is first written.\<close>

definition outputs_after_manifest :: "step list \<Rightarrow> string list" where
  "outputs_after_manifest steps =
     concat (map step_output (dropWhile (\<lambda>s. \<not> is_manifest_write s) steps))"

definition manifest_written_last :: "step list \<Rightarrow> bool" where
  "manifest_written_last steps \<longleftrightarrow>
     manifest_writes steps = 1 \<and> outputs_after_manifest steps = []"

text \<open>
  Two sample environments whose world is the list of actions performed so far: one whose
  storage refuses every write and records the attempt, and one where every action
  succeeds.
\<close>

definition denying_host :: "(string list, int) host" where
  "denying_host =
     \<lparr> console_log = (\<lambda>s w. w @ [''log: '' @ s]),
       fs_writeFile =
         (\<lambda>path content w. Inl (Rejected ''EACCES'', w @ [''write failed: '' @ path])),
       JSON_stringify = (\<lambda>j. []),
       prettier_format = (\<lambda>s opts. s),
       write_output = (\<lambda>t w. Inr (w @ [''emit: '' @ out_file (tgt_output t)])) \<rparr>"

definition recording_host :: "(string list, int) host" where
  "recording_host =
     \<lparr> console_log = (\<lambda>s w. w @ [''log: '' @ s]),
       fs_writeFile = (\<lambda>path content w. Inr (w @ [''write: '' @ path])),
       JSON_stringify = (\<lambda>j. []),
       prettier_format = (\<lambda>s opts. s),
       write_output = (\<lambda>t w. Inr (w @ [''emit: '' @ out_file (tgt_output t)])) \<rparr>"

section \<open>Properties of the object operations\<close>

lemma distinct_Object_assign:
  "distinct (map fst t) \<Longrightarrow> distinct (map fst (Object_assign t s))"
  unfolding Object_assign_def
  by (induction s arbitrary: t) (auto simp: AList.distinct_update split: prod.splits)

lemma update_append_new:
  "k \<notin> fst ` set t \<Longrightarrow> AList.update k v t = t @ [(k, v)]"
  by (induction t) auto

lemma update_middle:
  "k \<notin> fst ` set pre \<Longrightarrow> AList.update k v (pre @ (k, v0) # rest) = pre @ (k, v) # rest"
  by (induction pre) auto

lemma Object_assign_append:
  "distinct (map fst (t @ s)) \<Longrightarrow> Object_assign t s = t @ s"
  unfolding Object_assign_def
proof (induction s arbitrary: t)
  case Nil
  then show ?case by simp
next
  case (Cons p s)
  obtain k v where p: "p = (k, v)" by (cases p)
  from Cons.prems p have new: "k \<notin> fst ` set t" by auto
  from Cons.prems p have d: "distinct (map fst ((t @ [(k, v)]) @ s))" by auto
  show ?case using Cons.IH [OF d] new p by (simp add: update_append_new)
qed

lemma Object_assign_same_keys:
  "distinct (map fst (pre @ s)) \<Longrightarrow> map fst t = map fst s \<Longrightarrow>
   Object_assign (pre @ t) s = pre @ s"
  unfolding Object_assign_def
proof (induction s arbitrary: pre t)
  case Nil
  then show ?case by simp
next
  case (Cons p s)
  obtain k v where p: "p = (k, v)" by (cases p)
  from Cons.prems(2) p obtain v0 t' where t: "t = (k, v0) # t'" and keys: "map fst t' = map fst s"
    by (cases t) auto
  from Cons.prems(1) p have new: "k \<notin> fst ` set pre" by auto
  from Cons.prems(1) p have d: "distinct (map fst ((pre @ [(k, v)]) @ s))" by auto
  have "fold (\<lambda>(k, v). AList.update k v) (p # s) (pre @ t)
        = fold (\<lambda>(k, v). AList.update k v) s ((pre @ [(k, v)]) @ t')"
    using new p t by (simp add: update_middle)
  also have "\<dots> = (pre @ [(k, v)]) @ s"
    by (rule Cons.IH [OF d keys])
  finally show ?case using p by simp
qed

lemma Object_assign_Cons_src:
  "Object_assign t (s @ [(k, v)]) = AList.update k v (Object_assign t s)"
  unfolding Object_assign_def by simp

lemma spread_distinct: "distinct (map fst a) \<Longrightarrow> spread a = a"
  unfolding spread_def using Object_assign_append [of "[]" a] by simp

lemma distinct_spread: "distinct (map fst (spread a))"
  unfolding spread_def by (rule distinct_Object_assign) simp

lemma Object_assign_self: "distinct (map fst t) \<Longrightarrow> Object_assign t t = t"
  using Object_assign_same_keys [of "[]" t t] by simp

lemma update_self_assign:
  assumes d: "distinct (map fst t)"
  shows "Object_assign t (AList.update k v t) = AList.update k v t"
proof (cases "k \<in> fst ` set t")
  case True
  then have keys: "map fst t = map fst (AList.update k v t)"
    by (simp add: AList.update_keys)
  have "distinct (map fst ([] @ AList.update k v t))"
    using d by (simp add: AList.distinct_update)
  from Object_assign_same_keys [OF this keys] show ?thesis by simp
next
  case False
  then have u: "AList.update k v t = t @ [(k, v)]" by (rule update_append_new)
  show ?thesis
    unfolding u Object_assign_Cons_src Object_assign_self [OF d] by (simp add: u [symmetric])
qed

lemma spread2_singleton:
  "distinct (map fst a) \<Longrightarrow> spread2 a [(k, v)] = AList.update k v a"
  using spread_distinct [of a] by (simp add: spread2_def spread_def Object_assign_def)

lemma createExportTemplate_single:
  "(createExportTemplate n :: 'n obj) = [(''./'' @ n, snd (hd (createExportTemplate n)))]"
  by (simp add: createExportTemplate_def)

lemma loop_body_update:
  assumes d: "distinct (map fst ue)"
  shows "loop_body ue n = AList.update (''./'' @ n) (snd (hd (createExportTemplate n))) ue"
proof -
  have "spread2 ue (createExportTemplate n)
        = AList.update (''./'' @ n) (snd (hd (createExportTemplate n))) ue"
    by (subst createExportTemplate_single) (rule spread2_singleton [OF d])
  then show ?thesis
    unfolding loop_body_def by (simp add: update_self_assign [OF d])
qed

lemma distinct_loop_body:
  "distinct (map fst ue) \<Longrightarrow> distinct (map fst (loop_body ue n))"
  by (simp add: loop_body_update AList.distinct_update)

lemma distinct_foldl_loop_body:
  "distinct (map fst ue) \<Longrightarrow> distinct (map fst (foldl loop_body ue ms))"
  by (induction ms arbitrary: ue) (simp_all add: distinct_loop_body)

lemma spread_defaultExports: "spread (defaultExports :: 'n obj) = defaultExports"
  by (rule spread_distinct) (simp add: defaultExports_def)

lemma distinct_buildExportMap: "distinct (map fst (buildExportMap ms :: 'n obj))"
  unfolding buildExportMap_def spread_defaultExports
  by (rule distinct_foldl_loop_body) (simp add: defaultExports_def)

lemma buildExportMap_Nil: "(buildExportMap [] :: 'n obj) = defaultExports"
  by (simp add: buildExportMap_def spread_defaultExports)

lemma buildExportMap_snoc:
  "(buildExportMap (ms @ [n]) :: 'n obj)
   = AList.update (''./'' @ n) (snd (hd (createExportTemplate n))) (buildExportMap ms)"
  using distinct_buildExportMap [of ms, where 'n = 'n]
  by (simp add: buildExportMap_def loop_body_update)

lemma keys_buildExportMap:
  "fst ` set (buildExportMap ms :: 'n obj) = insert ''.'' ((\<lambda>n. ''./'' @ n) ` set ms)"
proof (induction ms rule: rev_induct)
  case Nil
  then show ?case by (simp add: buildExportMap_Nil defaultExports_def)
next
  case (snoc n ms)
  then show ?case by (auto simp: buildExportMap_snoc AList.dom_update)
qed

lemma length_buildExportMap: "length (buildExportMap ms :: 'n obj) = 1 + card (set ms)"
proof -
  let ?e = "buildExportMap ms :: 'n obj"
  have "length ?e = length (map fst ?e)" by simp
  also have "\<dots> = card (set (map fst ?e))"
    using distinct_buildExportMap [of ms, where 'n = 'n] by (simp only: distinct_card)
  also have "\<dots> = card (insert ''.'' ((\<lambda>n. ''./'' @ n) ` set ms))"
    using keys_buildExportMap [of ms, where 'n = 'n] by simp
  also have "\<dots> = 1 + card ((\<lambda>n. ''./'' @ n) ` set ms)"
    by (subst card_insert_disjoint) auto
  also have "card ((\<lambda>n. ''./'' @ n) ` set ms) = card (set ms)"
    by (rule card_image) (simp add: inj_on_def)
  finally show ?thesis .
qed

lemma lookup_buildExportMap_module:
  "n \<in> set ms \<Longrightarrow>
   map_of (buildExportMap ms :: 'n obj) (''./'' @ n) = Some (snd (hd (createExportTemplate n)))"
proof (induction ms rule: rev_induct)
  case Nil
  then show ?case by simp
next
  case (snoc m ms)
  then show ?case by (auto simp: buildExportMap_snoc AList.update_conv')
qed

lemma buildExportMap_closed_form:
  "(buildExportMap ms :: 'n obj)
   = defaultExports @ concat (map createExportTemplate (rev (remdups (rev ms))))"
proof (induction ms rule: rev_induct)
  case Nil
  then show ?case by (simp add: buildExportMap_Nil)
next
  case (snoc n ms)
  show ?case
  proof (cases "n \<in> set ms")
    case True
    from lookup_buildExportMap_module [OF True]
    have "AList.update (''./'' @ n) (snd (hd (createExportTemplate n))) (buildExportMap ms)
          = (buildExportMap ms :: 'n obj)"
      by (rule AList.update_triv)
    with True snoc show ?thesis by (simp add: buildExportMap_snoc)
  next
    case False
    then have "''./'' @ n \<notin> fst ` set (buildExportMap ms :: 'n obj)"
      by (auto simp: keys_buildExportMap)
    then have "AList.update (''./'' @ n) (snd (hd (createExportTemplate n))) (buildExportMap ms)
          = (buildExportMap ms :: 'n obj) @ createExportTemplate n"
      by (subst (2) createExportTemplate_single) (rule update_append_new)
    with False snoc show ?thesis by (simp add: buildExportMap_snoc)
  qed
qed

lemma filter_update_other:
  "filter (\<lambda>p. fst p \<noteq> k) (AList.update k v al) = filter (\<lambda>p. fst p \<noteq> k) al"
  by (induction al) auto

lemma distinct_updateManifest: "distinct (map fst (updateManifest ms pj))"
  by (simp add: updateManifest_def Let_def AList.distinct_update distinct_spread)

lemma lookup_exports_updateManifest:
  "map_of (updateManifest ms pj) ''exports'' = Some (JObj (buildExportMap ms))"
  by (simp add: updateManifest_def Let_def AList.update_conv')

lemma exports_of_updateManifest:
  "exports_of (updateManifest ms pj) = buildExportMap ms"
  by (simp add: exports_of_def lookup_exports_updateManifest)

lemma updateManifest_idem:
  "updateManifest ms (updateManifest ms pj) = updateManifest ms pj"
proof -
  have "spread (updateManifest ms pj) = updateManifest ms pj"
    by (rule spread_distinct) (rule distinct_updateManifest)
  then show ?thesis
    by (simp add: updateManifest_def [of ms "updateManifest ms pj"] Let_def)
       (simp add: updateManifest_def Let_def)
qed

lemma map_of_Object_assign:
  "map_of (Object_assign t s) = map_of t ++ map_of (rev s)"
  unfolding Object_assign_def
proof (induction s arbitrary: t)
  case Nil
  then show ?case by simp
next
  case (Cons p s)
  obtain k v where p: "p = (k, v)" by (cases p)
  have "map_of (AList.update k v t) ++ map_of (rev s)
        = map_of t ++ (map_of [(k, v)] ++ map_of (rev s))"
    by (simp add: AList.update_conv' map_add_def fun_eq_iff split: option.splits)
  then show ?case using Cons.IH [of "AList.update k v t"] p by simp
qed

lemma map_of_rev_distinct:
  "distinct (map fst xs) \<Longrightarrow> map_of (rev xs) = map_of xs"
  using map_of_inject_set [of "rev xs" xs] by (simp add: rev_map [symmetric])

lemma lookup_loop_body:
  "map_of (loop_body (ue :: 'n obj) n) (''./'' @ n)
   = map_of (createExportTemplate n) (''./'' @ n)"
proof -
  let ?k = "''./'' @ n"
  let ?v = "snd (hd (createExportTemplate n :: 'n obj))"
  let ?x = "spread2 ue (createExportTemplate n)"
  have x: "?x = AList.update ?k ?v (spread ue)"
    by (subst createExportTemplate_single)
       (simp add: spread2_def spread_def Object_assign_def)
  have dx: "distinct (map fst ?x)"
    unfolding x by (simp add: AList.distinct_update distinct_spread)
  have "map_of ?x ?k = Some ?v"
    unfolding x by (simp add: AList.update_conv')
  then have "map_of (Object_assign ue ?x) ?k = Some ?v"
    by (simp add: map_of_Object_assign map_of_rev_distinct [OF dx] map_add_def)
  moreover have "map_of (createExportTemplate n) ?k = Some ?v"
    by (simp add: createExportTemplate_def)
  ultimately show ?thesis by (simp add: loop_body_def)
qed

lemma updateManifest_frame:
  "distinct (map fst pj) \<Longrightarrow>
   filter (\<lambda>p. fst p \<noteq> ''exports'') (updateManifest ms pj)
   = filter (\<lambda>p. fst p \<noteq> ''exports'') pj"
  by (simp add: updateManifest_def Let_def filter_update_other spread_distinct)

lemma lookup_updateManifest_other:
  "distinct (map fst pj) \<Longrightarrow> k \<noteq> ''exports'' \<Longrightarrow>
   map_of (updateManifest ms pj) k = map_of pj k"
  by (simp add: updateManifest_def Let_def AList.update_conv' spread_distinct)

section \<open>Properties of the build schedule\<close>

lemma build_steps_append: "build_steps (a @ b) = build_steps a @ build_steps b"
  by (simp add: build_steps_def)

lemma build_steps_plain:
  "\<forall>t \<in> set ts. Some UpdatePackageJsonExports \<notin> set (plugins t) \<Longrightarrow>
   build_steps ts = map WriteOutput ts"
proof (induction ts)
  case Nil
  then show ?case by (simp add: build_steps_def)
next
  case (Cons t ts)
  from Cons.prems have "filter (\<lambda>p. p = Some UpdatePackageJsonExports) (plugins t) = []"
    by (auto simp: filter_empty_conv)
  then have "target_steps t = [WriteOutput t]"
    by (simp add: target_steps_def)
  with Cons show ?case by (simp add: build_steps_def)
qed

lemma code_plugins_value:
  "code_plugins = [Some Externals, Some (Json True), Some (TypescriptPaths True), Some Esbuild]"
  by (simp add: code_plugins_def useEsbuild_def usePreferConst_def)

lemma module_targets_plain:
  "\<forall>t \<in> set (generateModuleTargets ms). Some UpdatePackageJsonExports \<notin> set (plugins t)"
  by (auto simp: generateModuleTargets_def createTsDefinitionConfigForModule_def
      createCjsConfigForModules_def createEsmConfigForModules_def code_plugins_value)

lemma build_steps_root:
  "build_steps generateRootTargets
   = WriteOutput (hd generateRootTargets) # UpdateManifest # map WriteOutput (tl generateRootTargets)"
  by (simp add: build_steps_def target_steps_def generateRootTargets_def code_plugins_value)

lemma build_steps_export_default:
  "build_steps (export_default ms)
   = WriteOutput (hd generateRootTargets) # UpdateManifest
     # map WriteOutput (tl generateRootTargets @ generateModuleTargets ms)"
  by (simp add: export_default_def build_steps_append build_steps_root
      build_steps_plain [OF module_targets_plain])

lemma run_steps_append:
  "run_steps h ms pj pre w0 = Inr w \<Longrightarrow>
   run_steps h ms pj (pre @ rest) w0 = run_steps h ms pj rest w"
  by (induction pre arbitrary: w0) (auto split: sum.splits)

lemma outputs_of_plain:
  "concat (map step_output (map WriteOutput ts)) = map (\<lambda>t. out_file (tgt_output t)) ts"
  by (induction ts) auto

section \<open>The export map and the manifest\<close>

text \<open>
  Claim C1. The export map written into the manifest has exactly one entry for the root
  subpath plus one per distinct module name, its keys are pairwise distinct, they are
  \<open>''.''\<close> and the subpaths \<open>''./'' @ n\<close> of the module names, and the root entry comes
  first. One pass of the loop body stores the module's generated entry at its subpath
  whatever the accumulated map \<open>ue\<close> held there, so a later module of the same name
  overwrites an earlier one. This holds for every module list, the empty one included,
  and whatever the input manifest's export map contains.
\<close>

theorem export_map_size:
  fixes packageJson ue :: "'n obj"
  shows "exports_of (updateManifest ms packageJson) = buildExportMap ms
    \<and> length (buildExportMap ms :: 'n obj) = 1 + length (remdups ms)
    \<and> distinct (map fst (buildExportMap ms :: 'n obj))
    \<and> fst ` set (buildExportMap ms :: 'n obj) = insert ''.'' ((\<lambda>n. ''./'' @ n) ` set ms)
    \<and> take 1 (buildExportMap ms :: 'n obj) = defaultExports
    \<and> map_of (loop_body ue n) (''./'' @ n)
        = map_of (createExportTemplate n :: 'n obj) (''./'' @ n)"
proof (intro conjI)
  show "exports_of (updateManifest ms packageJson) = buildExportMap ms"
    by (rule exports_of_updateManifest)
  show "length (buildExportMap ms :: 'n obj) = 1 + length (remdups ms)"
    by (simp add: length_buildExportMap length_remdups_card_conv)
  show "distinct (map fst (buildExportMap ms :: 'n obj))"
    by (rule distinct_buildExportMap)
  show "fst ` set (buildExportMap ms :: 'n obj) = insert ''.'' ((\<lambda>n. ''./'' @ n) ` set ms)"
    by (rule keys_buildExportMap)
  show "take 1 (buildExportMap ms :: 'n obj) = defaultExports"
    by (subst buildExportMap_closed_form) (simp add: defaultExports_def)
  show "map_of (loop_body ue n) (''./'' @ n)
        = map_of (createExportTemplate n :: 'n obj) (''./'' @ n)"
    by (rule lookup_loop_body)
qed

text \<open>
  Claim C2. Updating an already updated manifest with the same module list changes
  nothing: the manifest, its export map and the text that is persisted are the same as
  after one update.
\<close>

theorem updateManifest_idempotent:
  "updateManifest ms (updateManifest ms packageJson) = updateManifest ms packageJson
   \<and> exports_of (updateManifest ms (updateManifest ms packageJson))
       = exports_of (updateManifest ms packageJson)
   \<and> manifest_text h ms (updateManifest ms packageJson) = manifest_text h ms packageJson"
  by (simp add: updateManifest_idem manifest_text_def)

text \<open>
  Claim C3, as stated, fails. A manifest whose export map holds an entry
  \<open>''./legacy''\<close> is updated with the module list of the source (\<open>modules = []\<close>): the
  entry is not in the export map of the result.
\<close>

theorem input_exports_dropped:
  "\<not> entries_kept
       (exports_of [(''name'', JStr ''whapi''),
                    (''exports'', JObj [(''./legacy'', JStr ''./legacy.js'')])])
       (exports_of (updateManifest modules
                   [(''name'', JStr ''whapi''),
                    (''exports'', JObj [(''./legacy'', JStr ''./legacy.js'') :: string \<times> int json])]))"
  by (simp add: entries_kept_def exports_of_def updateManifest_def Let_def spread_def
      Object_assign_def buildExportMap_def modules_def defaultExports_def)

text \<open>
  Claim C3, amended. The update replaces the \<open>exports\<close> field: for every input manifest
  the resulting export map is the default root entry followed by the generated entries,
  one per distinct module name in the order of first occurrence. Nothing of the input
  manifest's export map is carried over.
\<close>

theorem exports_replaced_by_generated_map:
  "exports_of (updateManifest ms packageJson)
   = defaultExports @ concat (map createExportTemplate (rev (remdups (rev ms))))"
  by (simp add: exports_of_updateManifest buildExportMap_closed_form)

text \<open>
  Claim C9. For any two input manifests the update produces the same \<open>exports\<close> value,
  and the keys of the resulting export map are exactly the root subpath and the subpaths
  of the module names, so no other entry of an input manifest survives.
\<close>

theorem exports_independent_of_input_manifest:
  "map_of (updateManifest ms packageJson1) ''exports''
     = map_of (updateManifest ms packageJson2) ''exports''
   \<and> exports_of (updateManifest ms packageJson1) = exports_of (updateManifest ms packageJson2)
   \<and> fst ` set (exports_of (updateManifest ms packageJson1))
       = insert ''.'' ((\<lambda>n. ''./'' @ n) ` set ms)"
  by (simp add: lookup_exports_updateManifest exports_of_updateManifest keys_buildExportMap)

text \<open>
  Claim C8. The updated manifest agrees with the input manifest on every field other
  than \<open>exports\<close>: the same fields, in the same order, with the same values; in
  particular for the empty module list. The input is an object, so its keys are distinct.
\<close>

theorem manifest_frame:
  assumes "distinct (map fst packageJson)"
  shows "filter (\<lambda>p. fst p \<noteq> ''exports'') (updateManifest ms packageJson)
         = filter (\<lambda>p. fst p \<noteq> ''exports'') packageJson
    \<and> filter (\<lambda>p. fst p \<noteq> ''exports'') (updateManifest [] packageJson)
         = filter (\<lambda>p. fst p \<noteq> ''exports'') packageJson
    \<and> (\<forall>k. k \<noteq> ''exports'' \<longrightarrow>
           map_of (updateManifest ms packageJson) k = map_of packageJson k)"
  using assms by (simp add: updateManifest_frame lookup_updateManifest_other)

text \<open>
  Claim C8 at a concrete manifest with the fields \<open>name\<close>, \<open>exports\<close> and \<open>version\<close>.
\<close>

theorem manifest_frame_witness:
  "distinct (map fst [(''name'', JStr ''whapi''), (''exports'', JNull), (''version'', JNum (1::int))])
   \<and> filter (\<lambda>p. fst p \<noteq> ''exports'')
        (updateManifest [''billing'']
           [(''name'', JStr ''whapi''), (''exports'', JNull), (''version'', JNum (1::int))])
      = [(''name'', JStr ''whapi''), (''version'', JNum 1)]
   \<and> map_of (updateManifest [''billing'']
           [(''name'', JStr ''whapi''), (''exports'', JNull), (''version'', JNum (1::int))])
         ''version'' = Some (JNum 1)"
proof -
  let ?pj = "[(''name'', JStr ''whapi''), (''exports'', JNull), (''version'', JNum (1::int))]"
  have d: "distinct (map fst ?pj)" by simp
  from manifest_frame [OF d, of "[''billing'']"] show ?thesis by simp
qed



section \<open>The build targets\<close>

text \<open>
  Claim C6. The module targets of the empty list are the empty list. For a list of
  module names there are three targets per name: the type-declaration targets in the
  order of the list, then the CommonJS targets in that order, then the ES-module targets
  in that order, a repeated name giving repeated targets. With \<open>useEsbuild\<close> on, as in the
  source, every code target runs the fast transpiler. For \<open>[''billing'', ''reports'']\<close>
  the result is six targets: two type-declaration, two CommonJS and two ES-module ones.
\<close>

theorem generateModuleTargets_shape:
  "generateModuleTargets [] = []
   \<and> length (generateModuleTargets ms) = 3 * length ms
   \<and> map (\<lambda>t. (tgt_input t, out_file (tgt_output t), format (tgt_output t), plugins t))
         (generateModuleTargets ms)
       = map (\<lambda>n. (''src/modules/'' @ n @ ''/index.ts'', n @ ''/index.d.ts'', ''es'',
                    [Some Externals, Some (Json True), Some (TypescriptPaths True), Some Dts])) ms
         @ map (\<lambda>n. (''src/modules/'' @ n @ ''/index.ts'', n @ ''/index.cjs'', ''cjs'',
                    [Some Externals, Some (Json True), Some (TypescriptPaths True), Some Esbuild])) ms
         @ map (\<lambda>n. (''src/modules/'' @ n @ ''/index.ts'', n @ ''/index.mjs'', ''es'',
                    [Some Externals, Some (Json True), Some (TypescriptPaths True), Some Esbuild])) ms
   \<and> length (filter (\<lambda>t. Some Dts \<in> set (plugins t)) (generateModuleTargets ms)) = length ms
   \<and> length (filter (\<lambda>t. Some Esbuild \<in> set (plugins t) \<and> format (tgt_output t) = ''es'')
         (generateModuleTargets ms)) = length ms
   \<and> length (filter (\<lambda>t. Some Esbuild \<in> set (plugins t) \<and> format (tgt_output t) = ''cjs'')
         (generateModuleTargets ms)) = length ms
   \<and> map (\<lambda>t. (out_file (tgt_output t), format (tgt_output t)))
         (generateModuleTargets [''billing'', ''reports''])
       = [(''billing/index.d.ts'', ''es''), (''reports/index.d.ts'', ''es''),
          (''billing/index.cjs'', ''cjs''), (''reports/index.cjs'', ''cjs''),
          (''billing/index.mjs'', ''es''), (''reports/index.mjs'', ''es'')]"
  by (simp add: generateModuleTargets_def createTsDefinitionConfigForModule_def
      createCjsConfigForModules_def createEsmConfigForModules_def code_plugins_value
      usePreferConst_def comp_def)

text \<open>
  Claim C7. Whatever the module list, the exported configuration starts with the same
  three root targets, all reading \<open>src/index.ts\<close>: a type-declaration target of format
  \<open>es\<close> run through the declaration plugin and no transpiler, an ES-module target of
  format \<open>es\<close> with strict mode on, constant bindings on and source maps off, and a
  CommonJS target of format \<open>cjs\<close> with the same options.
\<close>

theorem generateRootTargets_shape:
  "take 3 (export_default ms) = generateRootTargets
   \<and> length generateRootTargets = 3
   \<and> map (\<lambda>t. (tgt_input t, out_file (tgt_output t), format (tgt_output t),
                strict (tgt_output t), constBindings (tgt_output t), sourcemap (tgt_output t),
                plugins t))
         generateRootTargets
       = [(''src/index.ts'', ''dist/index.d.ts'', ''es'', None, None, None,
           [Some Externals, Some (Json True), Some (TypescriptPaths True), Some Dts,
            Some UpdatePackageJsonExports]),
          (''src/index.ts'', ''dist/esm/index.mjs'', ''es'', Some True, Some True, Some False,
           [Some Externals, Some (Json True), Some (TypescriptPaths True), Some Esbuild]),
          (''src/index.ts'', ''dist/cjs/index.cjs'', ''cjs'', Some True, Some True, Some False,
           [Some Externals, Some (Json True), Some (TypescriptPaths True), Some Esbuild])]"
  by (simp add: export_default_def generateRootTargets_def code_plugins_value
      usePreferConst_def useStrict_def useSourceMap_def)

section \<open>The order of the build and the manifest write\<close>

text \<open>
  The actions of a build of the source's configuration in the environment where every
  action succeeds, in order.
\<close>

lemma run_build_recorded:
  "run_build recording_host modules [] []
   = Inr [''emit: dist/index.d.ts'', ''log: updating package.json for exports'',
          ''write: ./package.json'', ''emit: dist/esm/index.mjs'', ''emit: dist/cjs/index.cjs'']"
  by (simp add: run_build_def build_steps_export_default generateRootTargets_def
      generateModuleTargets_def createCjsConfigForModules_def createEsmConfigForModules_def
      modules_def recording_host_def writeBundle_def Let_def)

text \<open>
  Claim C4, as stated, fails. With the module list of the source, the manifest is
  written while the root ES-module output and the root CommonJS output are still to be
  written.
\<close>

theorem manifest_written_before_code_outputs:
  "\<not> manifest_written_last (build_steps (export_default modules))
   \<and> outputs_after_manifest (build_steps (export_default modules))
       = [''dist/esm/index.mjs'', ''dist/cjs/index.cjs'']"
  by (simp add: manifest_written_last_def outputs_after_manifest_def manifest_writes_def
      build_steps_def target_steps_def export_default_def generateRootTargets_def
      generateModuleTargets_def createCjsConfigForModules_def createEsmConfigForModules_def
      modules_def code_plugins_def useEsbuild_def)

text \<open>
  Claim C4, amended. For every module list the run writes the root type-declaration
  output \<open>dist/index.d.ts\<close>, then updates the manifest, then writes every other output.
  The manifest is written exactly once, after the first target's output and before the
  root ES-module and CommonJS outputs and the outputs of every module target.
\<close>

theorem manifest_written_after_root_declarations:
  "build_steps (export_default ms)
     = WriteOutput (hd generateRootTargets) # UpdateManifest
       # map WriteOutput (tl generateRootTargets @ generateModuleTargets ms)
   \<and> out_file (tgt_output (hd generateRootTargets)) = ''dist/index.d.ts''
   \<and> manifest_writes (build_steps (export_default ms)) = 1
   \<and> outputs_after_manifest (build_steps (export_default ms))
       = [''dist/esm/index.mjs'', ''dist/cjs/index.cjs'']
         @ map (\<lambda>n. n @ ''/index.d.ts'') ms
         @ map (\<lambda>n. n @ ''/index.cjs'') ms
         @ map (\<lambda>n. n @ ''/index.mjs'') ms"
proof (intro conjI)
  show "build_steps (export_default ms)
     = WriteOutput (hd generateRootTargets) # UpdateManifest
       # map WriteOutput (tl generateRootTargets @ generateModuleTargets ms)"
    by (rule build_steps_export_default)
  show "out_file (tgt_output (hd generateRootTargets)) = ''dist/index.d.ts''"
    by (simp add: generateRootTargets_def)
  have nw: "filter is_manifest_write (map WriteOutput ts) = []" for ts
    by (induction ts) auto
  show "manifest_writes (build_steps (export_default ms)) = 1"
    unfolding build_steps_export_default manifest_writes_def by (simp add: nw)
  show "outputs_after_manifest (build_steps (export_default ms))
       = [''dist/esm/index.mjs'', ''dist/cjs/index.cjs'']
         @ map (\<lambda>n. n @ ''/index.d.ts'') ms
         @ map (\<lambda>n. n @ ''/index.cjs'') ms
         @ map (\<lambda>n. n @ ''/index.mjs'') ms"
    unfolding build_steps_export_default outputs_after_manifest_def
    by (simp add: outputs_of_plain del: map_append map_map)
       (simp add: generateRootTargets_def generateModuleTargets_def
        createTsDefinitionConfigForModule_def createCjsConfigForModules_def
        createEsmConfigForModules_def comp_def)
qed

section \<open>Failure of the manifest write\<close>

text \<open>
  Claim C5. The outcome of the hook, the world included, is the outcome of one call of
  the write of \<open>./package.json\<close> made after the one log line. So when that write fails
  with an error and leaves the world \<open>w'\<close>, the hook fails with that same error in that
  same world: the error is neither caught nor replaced, and no further attempt is made.
  A run in which the steps before the manifest update succeed then fails with that error
  in that world, no later step being run, and so does the build of the exported
  configuration once its first output has been written.
\<close>

theorem manifest_write_failure_propagates:
  assumes "fs_writeFile h ''./package.json'' (manifest_text h ms packageJson)
             (console_log h ''updating package.json for exports'' w) = Inl (e, w')"
  shows "writeBundle h ms packageJson w
           = fs_writeFile h ''./package.json'' (manifest_text h ms packageJson)
               (console_log h ''updating package.json for exports'' w)
    \<and> writeBundle h ms packageJson w = Inl (e, w')
    \<and> (\<forall>pre rest w0. run_steps h ms packageJson pre w0 = Inr w \<longrightarrow>
          run_steps h ms packageJson (pre @ UpdateManifest # rest) w0 = Inl (e, w'))
    \<and> (\<forall>w0. write_output h (hd generateRootTargets) w0 = Inr w \<longrightarrow>
          run_build h ms packageJson w0 = Inl (e, w'))"
proof (intro conjI allI impI)
  show "writeBundle h ms packageJson w
           = fs_writeFile h ''./package.json'' (manifest_text h ms packageJson)
               (console_log h ''updating package.json for exports'' w)"
    by (simp add: writeBundle_def Let_def split: sum.splits)
  show wb: "writeBundle h ms packageJson w = Inl (e, w')"
    using assms by (simp add: writeBundle_def Let_def)
  show "run_steps h ms packageJson (pre @ UpdateManifest # rest) w0 = Inl (e, w')"
    if "run_steps h ms packageJson pre w0 = Inr w" for pre rest w0
    using run_steps_append [OF that] wb by simp
  show "run_build h ms packageJson w0 = Inl (e, w')"
    if "write_output h (hd generateRootTargets) w0 = Inr w" for w0
    using that wb by (simp add: run_build_def build_steps_export_default)
qed

text \<open>
  Claim C5 in the environment whose storage refuses every write and records each
  attempt: the hook and the whole build fail with the storage's error, and the world
  they leave holds exactly one failed write, with no output after it.
\<close>

theorem manifest_write_failure_propagates_witness:
  "fs_writeFile denying_host ''./package.json'' (manifest_text denying_host modules [])
     (console_log denying_host ''updating package.json for exports'' [''emit: dist/index.d.ts''])
     = Inl (Rejected ''EACCES'',
            [''emit: dist/index.d.ts'', ''log: updating package.json for exports'',
             ''write failed: ./package.json''])
   \<and> writeBundle denying_host modules [] [''emit: dist/index.d.ts'']
     = Inl (Rejected ''EACCES'',
            [''emit: dist/index.d.ts'', ''log: updating package.json for exports'',
             ''write failed: ./package.json''])
   \<and> write_output denying_host (hd generateRootTargets) [] = Inr [''emit: dist/index.d.ts'']
   \<and> run_build denying_host modules [] []
     = Inl (Rejected ''EACCES'',
            [''emit: dist/index.d.ts'', ''log: updating package.json for exports'',
             ''write failed: ./package.json''])"
proof -
  have h: "fs_writeFile denying_host ''./package.json'' (manifest_text denying_host modules [])
     (console_log denying_host ''updating package.json for exports'' [''emit: dist/index.d.ts''])
     = Inl (Rejected ''EACCES'',
            [''emit: dist/index.d.ts'', ''log: updating package.json for exports'',
             ''write failed: ./package.json''])"
    by (simp add: denying_host_def)
  have o: "write_output denying_host (hd generateRootTargets) [] = Inr [''emit: dist/index.d.ts'']"
    by (simp add: denying_host_def generateRootTargets_def)
  from manifest_write_failure_propagates [OF h] h o show ?thesis by blast
qed

end
